theory Spec2Isabelle
  imports Complex_Main
begin

section \<open>Exceptions\<close>

text \<open>
  The \<open>args\<close> of \<open>subprocess.run\<close> are one string or a sequence of strings; the
  exceptions and the result of \<open>subprocess.run\<close> carry them as they were passed.
\<close>

datatype popen_args = Args_str string | Args_list "string list"

text \<open>
  The exceptions that can leave the module, as values. \<open>ShellTimeout\<close> and
  \<open>ShellError\<close> are the module's names for \<open>subprocess.TimeoutExpired\<close> and
  \<open>subprocess.CalledProcessError\<close>; the latter carries the return code, the command,
  and the two captured streams.
\<close>

datatype error =
    KeyError
  | ValueError
  | ShellTimeout popen_args real
  | ShellError int popen_args "string option" "string option"
  | OSError
  | IndexError
  | UnicodeDecodeError

text \<open>
  Python's class hierarchy, as far as the module's callers can branch on it: \<open>KeyError\<close>
  and \<open>IndexError\<close> are \<open>LookupError\<close>s, \<open>UnicodeDecodeError\<close> is a \<open>ValueError\<close>.
\<close>

fun is_LookupError :: "error \<Rightarrow> bool" where
  "is_LookupError KeyError = True"
| "is_LookupError IndexError = True"
| "is_LookupError _ = False"


section \<open>Tokenizing the command: \<open>shlex.split\<close>\<close>

text \<open>
  \<open>run\<close> calls \<open>shlex.split(command)\<close> of the standard library: a \<open>shlex\<close> lexer in
  POSIX mode with \<open>whitespace_split\<close> set, no comment characters and no punctuation
  characters. The lexer's \<open>state\<close> attribute is \<open>None\<close> (past the end), \<open>' '\<close>
  (between tokens), \<open>'a'\<close> (in a word), a quote character, or the escape character.
\<close>

datatype lex_state = St_None | St_Space | St_Word | St_Quote char | St_Escape char

definition whitespace :: "char set" where
  "whitespace = {CHR '' '', CHR 0x09, CHR 0x0D, CHR 0x0A}"

definition quotes :: "char set" where
  "quotes = {CHR 0x27, CHR 0x22}"

definition escape :: "char set" where
  "escape = {CHR 0x5C}"

definition escapedquotes :: "char set" where
  "escapedquotes = {CHR 0x22}"

text \<open>
  One call of \<open>read_token\<close>: the \<open>while True\<close> loop over the characters of the input
  stream, with the locals \<open>escapedstate\<close>, \<open>token\<close> and \<open>quoted\<close>. A \<open>break\<close> returns
  the token read so far, the \<open>quoted\<close> flag, the lexer's state and the rest of the
  stream; the two \<open>raise ValueError\<close> are \<open>Inl ValueError\<close>. At the end of the stream
  \<open>read(1)\<close> returns the empty string and consumes nothing. With \<open>whitespace_split\<close>
  set and no punctuation characters, a character that is neither whitespace, escape nor
  quote starts or extends a word, whether or not it is in \<open>wordchars\<close>.
\<close>

fun read_token_loop ::
  "lex_state \<Rightarrow> lex_state \<Rightarrow> string \<Rightarrow> bool \<Rightarrow> string
    \<Rightarrow> error + (string \<times> bool \<times> lex_state \<times> string)" where
  "read_token_loop St_None es token quoted [] = Inr ([], quoted, St_None, [])"
| "read_token_loop St_Space es token quoted [] = Inr (token, quoted, St_None, [])"
| "read_token_loop (St_Quote q) es token quoted [] = Inl ValueError"
| "read_token_loop (St_Escape e) es token quoted [] = Inl ValueError"
| "read_token_loop St_Word es token quoted [] = Inr (token, quoted, St_None, [])"
| "read_token_loop St_None es token quoted (c # cs) = Inr ([], quoted, St_None, cs)"
| "read_token_loop St_Space es token quoted (c # cs) =
     (if c \<in> whitespace then
        (if token \<noteq> [] \<or> quoted then Inr (token, quoted, St_Space, cs)
         else read_token_loop St_Space es token quoted cs)
      else if c \<in> escape then read_token_loop (St_Escape c) St_Word token quoted cs
      else if c \<in> quotes then read_token_loop (St_Quote c) es token quoted cs
      else read_token_loop St_Word es [c] quoted cs)"
| "read_token_loop (St_Quote q) es token quoted (c # cs) =
     (if c = q then read_token_loop St_Word es token True cs
      else if c \<in> escape \<and> q \<in> escapedquotes
        then read_token_loop (St_Escape c) (St_Quote q) token True cs
      else read_token_loop (St_Quote q) es (token @ [c]) True cs)"
| "read_token_loop (St_Escape e) es token quoted (c # cs) =
     (case es of
        St_Quote q \<Rightarrow>
          (if c \<noteq> e \<and> c \<noteq> q
           then read_token_loop es es (token @ [e] @ [c]) quoted cs
           else read_token_loop es es (token @ [c]) quoted cs)
      | _ \<Rightarrow> read_token_loop es es (token @ [c]) quoted cs)"
| "read_token_loop St_Word es token quoted (c # cs) =
     (if c \<in> whitespace then
        (if token \<noteq> [] \<or> quoted then Inr (token, quoted, St_Space, cs)
         else read_token_loop St_Space es token quoted cs)
      else if c \<in> quotes then read_token_loop (St_Quote c) es token quoted cs
      else if c \<in> escape then read_token_loop (St_Escape c) St_Word token quoted cs
      else read_token_loop St_Word es (token @ [c]) quoted cs)"

text \<open>
  \<open>read_token\<close> starts the loop with \<open>quoted = False\<close>, \<open>escapedstate = ' '\<close> and an
  empty token; an empty token that was never quoted is \<open>None\<close>, the end-of-file marker
  of the POSIX mode.
\<close>

definition read_token ::
  "lex_state \<Rightarrow> string \<Rightarrow> error + (string option \<times> lex_state \<times> string)" where
  "read_token st instream =
     (case read_token_loop st St_Space [] False instream of
        Inl e \<Rightarrow> Inl e
      | Inr (token, quoted, st', rest) \<Rightarrow>
          Inr (if \<not> quoted \<and> token = [] then None else Some token, st', rest))"

lemma read_token_loop_length:
  "read_token_loop st es token quoted inp = Inr (token', quoted', st', rest) \<Longrightarrow>
     length rest \<le> length inp - 1"
proof (induction st es token quoted inp rule: read_token_loop.induct)
  case (7 es token quoted c cs)
  then show ?case by (simp split: if_splits)
next
  case (8 q es token quoted c cs)
  then show ?case by (simp split: if_splits)
next
  case (9 e es token quoted c cs)
  then show ?case by (cases es) (simp_all split: if_splits)
next
  case (10 es token quoted c cs)
  then show ?case by (simp split: if_splits)
qed simp_all

lemma read_token_loop_eof:
  "read_token_loop st es token quoted [] = Inr (token', quoted', st', rest) \<Longrightarrow>
     rest = [] \<and> st' = St_None \<and> (st = St_None \<longrightarrow> token' = [] \<and> quoted' = quoted)"
  by (cases st) simp_all

text \<open>
  A call of \<open>read_token\<close> that returns a token has consumed a character, or has moved
  the lexer past the end of the stream: the iteration over the lexer terminates.
\<close>

lemma read_token_measure:
  assumes "read_token st inp = Inr (Some tok, st', rest)"
  shows "2 * length rest + (if st' = St_None then 0 else 1)
           < 2 * length inp + (if st = St_None then 0 else (1::nat))"
proof -
  from assms obtain token quoted where
    l: "read_token_loop st St_Space [] False inp = Inr (token, quoted, st', rest)"
    and r: "quoted \<or> token \<noteq> []"
    by (auto simp: read_token_def split: sum.splits prod.splits if_splits)
  show ?thesis
  proof (cases inp)
    case Nil
    with read_token_loop_eof [of st St_Space "[]" False token quoted st' rest] l r
    show ?thesis by (cases "st = St_None") simp_all
  next
    case (Cons c cs)
    with read_token_loop_length [OF l] show ?thesis by simp
  qed
qed

text \<open>
  \<open>list(lex)\<close>: \<open>__next__\<close> calls \<open>get_token\<close> (here \<open>read_token\<close>: nothing is pushed
  back and no file is sourced) until it returns the end-of-file marker.
\<close>

function lex_list :: "lex_state \<Rightarrow> string \<Rightarrow> error + string list" where
  "lex_list st instream =
     (case read_token st instream of
        Inl e \<Rightarrow> Inl e
      | Inr (None, st', rest) \<Rightarrow> Inr []
      | Inr (Some token, st', rest) \<Rightarrow>
          (case lex_list st' rest of
             Inl e \<Rightarrow> Inl e
           | Inr tokens \<Rightarrow> Inr (token # tokens)))"
  by pat_completeness auto
termination
proof (relation "measure (\<lambda>(st, inp). 2 * length inp + (if st = St_None then 0 else 1))")
  show "wf (measure (\<lambda>(st, inp). 2 * length inp + (if st = St_None then 0 else 1)))"
    by simp
next
  fix st instream x2 x y x1 x2a x2b
  assume "read_token st instream = Inr x2" "(x, y) = x2" "(x1, x2a) = y" "x = Some x2b"
  then have "read_token st instream = Inr (Some x2b, x1, x2a)" by simp
  from read_token_measure [OF this]
  show "((x1, x2a), st, instream)
          \<in> measure (\<lambda>(st, inp). 2 * length inp + (if st = St_None then 0 else 1))"
    by simp
qed

declare lex_list.simps [simp del]

definition shlex_split :: "string \<Rightarrow> error + string list" where
  "shlex_split s = lex_list St_Space s"

section \<open>The data of the module\<close>

text \<open>The enumeration \<open>Locales\<close> and its lookup by member name, \<open>Locales[name]\<close>.\<close>

datatype Locales = english | italian

definition Locales_members :: "(string \<times> Locales) list" where
  "Locales_members = [(''english'', english), (''italian'', italian)]"

definition Locales_getitem :: "string \<Rightarrow> error + Locales" where
  "Locales_getitem name =
     (case map_of Locales_members name of None \<Rightarrow> Inl KeyError | Some lc \<Rightarrow> Inr lc)"

text \<open>The table \<open>_map\<close> of \<open>_get_locale_env\<close>, as the dictionary display lists it.\<close>

definition locale_map :: "(Locales \<times> string) list" where
  "locale_map = [(english, ''en_US''), (italian, ''it_IT'')]"

type_synonym env = "string \<rightharpoonup> string"

text \<open>
  The \<open>stdout\<close> and \<open>stderr\<close> arguments (\<open>int | IO | None\<close>): no redirection, a file
  descriptor or one of the special values of \<open>subprocess\<close>, or an open stream.
\<close>

datatype target = T_None | T_Int int | T_IO nat

definition PIPE :: target where
  "PIPE = T_Int (- 1)"

text \<open>
  What \<open>subprocess.run\<close> is asked to run: the argument vector, the environment, the
  redirections, the time allowed and the text mode. What the child does is not the
  module's: it is a parameter \<open>os\<close> of \<open>run\<close>, giving for each request either the exit
  status with what the child wrote to the two streams (\<open>None\<close> for a stream that is not
  captured), a timeout, or a failure to start the child. A captured stream is the bytes
  the child wrote together with their text in the platform's encoding, which is \<open>None\<close>
  when the bytes do not decode.
\<close>

record child_spec =
  argv :: "string list"
  c_env :: env
  c_stdout :: target
  c_stderr :: target
  c_timeout :: real
  c_text :: bool

datatype captured = Captured (raw: string) (decoded: "string option")

datatype child = Exited int "captured option" "captured option" | Timed_out | Spawn_failed

record CompletedProcess =
  cp_args :: popen_args
  returncode :: int
  cp_stdout :: "string option"
  cp_stderr :: "string option"

text \<open>
  The state of the program: the \<open>locale\<close> attribute of every \<open>Shell\<close> instance (instance
  \<open>0\<close> is \<open>_default_shell\<close>), the class attribute \<open>Shell.KEYS\<close> (one dictionary, which
  every instance reads through \<open>self.KEYS\<close>), the dictionary objects that callers and
  the module hold references to (object \<open>0\<close> is \<open>os.environ\<close>), and the requests made
  to \<open>subprocess.run\<close> so far (a request with an empty argument vector gets no child:
  \<open>Popen\<close> raises \<open>IndexError\<close> on it).
\<close>

record state =
  shells :: "nat \<Rightarrow> Locales"
  n_shells :: nat
  KEYS :: "string \<rightharpoonup> string"
  dicts :: "nat \<Rightarrow> env"
  n_dicts :: nat
  spawned :: "child_spec list"

definition default_shell :: nat where
  "default_shell = 0"

definition os_environ :: nat where
  "os_environ = 0"

section \<open>\<open>subprocess.run\<close>\<close>

text \<open>
  The standard library's \<open>subprocess.run\<close> on a POSIX system, as far as \<open>Shell.run\<close>
  uses it. \<open>Popen\<close> turns a string into a one-element list and, with \<open>shell=True\<close>,
  prepends \<open>/bin/sh -c\<close>; it takes the program from the first argument, so an empty
  argument vector raises \<open>IndexError\<close> before any child exists. \<open>communicate\<close> returns
  each captured stream as its bytes or, in text mode, as their text, and raises
  \<open>UnicodeDecodeError\<close> when they do not decode. After the child has exited, \<open>check\<close>
  and a non-zero return code raise \<open>CalledProcessError\<close> with the return code, the
  arguments and the two streams; a timeout raises \<open>TimeoutExpired\<close> with the arguments
  and the timeout.
\<close>

definition popen_argv :: "popen_args \<Rightarrow> bool \<Rightarrow> string list" where
  "popen_argv args shell =
     (let args = (case args of Args_str a \<Rightarrow> [a] | Args_list l \<Rightarrow> l)
      in if shell then [''/bin/sh'', ''-c''] @ args else args)"

definition read_stream :: "bool \<Rightarrow> captured option \<Rightarrow> error + string option" where
  "read_stream text stream =
     (case stream of
        None \<Rightarrow> Inr None
      | Some c \<Rightarrow>
          if text then
            (case decoded c of None \<Rightarrow> Inl UnicodeDecodeError | Some t \<Rightarrow> Inr (Some t))
          else Inr (Some (raw c)))"

definition communicate ::
  "bool \<Rightarrow> captured option \<Rightarrow> captured option \<Rightarrow> error + (string option \<times> string option)" where
  "communicate text out err =
     (case read_stream text out of
        Inl e \<Rightarrow> Inl e
      | Inr out' \<Rightarrow>
          (case read_stream text err of
             Inl e \<Rightarrow> Inl e
           | Inr err' \<Rightarrow> Inr (out', err')))"

definition subprocess_run ::
  "(child_spec \<Rightarrow> child) \<Rightarrow> popen_args \<Rightarrow> target \<Rightarrow> target \<Rightarrow> real \<Rightarrow> env
    \<Rightarrow> bool \<Rightarrow> bool \<Rightarrow> bool \<Rightarrow> state \<Rightarrow> (error + CompletedProcess) \<times> state" where
  "subprocess_run os args stdout stderr timeout env check shell text s =
     (let spec = \<lparr>argv = popen_argv args shell, c_env = env, c_stdout = stdout,
                   c_stderr = stderr, c_timeout = timeout, c_text = text\<rparr>;
          s = s\<lparr>spawned := spawned s @ [spec]\<rparr>
      in if argv spec = [] then (Inl IndexError, s)
         else
           (case os spec of
              Spawn_failed \<Rightarrow> (Inl OSError, s)
            | Timed_out \<Rightarrow> (Inl (ShellTimeout args timeout), s)
            | Exited retcode out err \<Rightarrow>
                (case communicate text out err of
                   Inl e \<Rightarrow> (Inl e, s)
                 | Inr (out', err') \<Rightarrow>
                     if check \<and> retcode \<noteq> 0
                     then (Inl (ShellError retcode args out' err'), s)
                     else (Inr \<lparr>cp_args = args, returncode = retcode,
                                cp_stdout = out', cp_stderr = err'\<rparr>, s))))"

section \<open>The class \<open>Shell\<close>\<close>

text \<open>
  \<open>Shell.__init__\<close>: the new instance gets its \<open>locale\<close>; \<open>self.KEYS.update(keys)\<close>
  updates the dictionary that \<open>self.KEYS\<close> finds, which is the class attribute.
\<close>

definition Shell_init :: "Locales \<Rightarrow> (string \<rightharpoonup> string) option \<Rightarrow> state \<Rightarrow> nat \<times> state" where
  "Shell_init locale keys s =
     (let self = n_shells s;
          s = s\<lparr>shells := (shells s)(self := locale), n_shells := Suc self\<rparr>
      in case keys of
           None \<Rightarrow> (self, s)
         | Some ks \<Rightarrow> (self, s\<lparr>KEYS := KEYS s ++ ks\<rparr>))"

text \<open>\<open>Shell._get_locale_env\<close>: both subscriptions raise \<open>KeyError\<close> on a missing key.\<close>

definition Shell_get_locale_env :: "nat \<Rightarrow> state \<Rightarrow> error + env" where
  "Shell_get_locale_env self s =
     (case KEYS s ''LOCALE_KEY'' of
        None \<Rightarrow> Inl KeyError
      | Some k \<Rightarrow>
          (case map_of locale_map (shells s self) of
             None \<Rightarrow> Inl KeyError
           | Some v \<Rightarrow> Inr [k \<mapsto> v]))"

text \<open>
  A new dictionary object with the entries \<open>e\<close>, and \<open>os.environ.copy()\<close>: a new
  dictionary object with the entries of \<open>os.environ\<close>.
\<close>

definition new_dict :: "env \<Rightarrow> state \<Rightarrow> nat \<times> state" where
  "new_dict e s =
     (n_dicts s, s\<lparr>dicts := (dicts s)(n_dicts s := e), n_dicts := Suc (n_dicts s)\<rparr>)"

definition environ_copy :: "state \<Rightarrow> nat \<times> state" where
  "environ_copy s = new_dict (dicts s os_environ) s"

text \<open>\<open>d.update(other)\<close> on the dictionary object \<open>d\<close>.\<close>

definition dict_update :: "nat \<Rightarrow> env \<Rightarrow> state \<Rightarrow> state" where
  "dict_update d other s = s\<lparr>dicts := (dicts s)(d := dicts s d ++ other)\<rparr>"

text \<open>
  \<open>Shell.run\<close>. The \<open>env\<close> argument is a reference to the caller's dictionary, or
  \<open>None\<close>. The steps are the source's, in its order: the environment, the locale
  variable, the tokens, the child. The two debug lines of the logger are left out.
\<close>

definition Shell_run ::
  "nat \<Rightarrow> (child_spec \<Rightarrow> child) \<Rightarrow> string \<Rightarrow> real \<Rightarrow> target \<Rightarrow> target \<Rightarrow> nat option
    \<Rightarrow> bool \<Rightarrow> bool \<Rightarrow> bool \<Rightarrow> state \<Rightarrow> (error + CompletedProcess) \<times> state" where
  "Shell_run self os command timeout stdout stderr env check shell text s =
     (case (case env of Some d \<Rightarrow> (d, s) | None \<Rightarrow> environ_copy s) of (env, s) \<Rightarrow>
       (case KEYS s ''LOCALE_KEY'' of
          None \<Rightarrow> (Inl KeyError, s)
        | Some k \<Rightarrow>
            (case (if k \<notin> dom (dicts s env)
                   then (case Shell_get_locale_env self s of
                           Inl e \<Rightarrow> Inl e
                         | Inr d \<Rightarrow> Inr (dict_update env d s))
                   else Inr s) of
               Inl e \<Rightarrow> (Inl e, s)
             | Inr s \<Rightarrow>
                 (case shlex_split command of
                    Inl e \<Rightarrow> (Inl e, s)
                  | Inr cmds \<Rightarrow>
                      subprocess_run os (Args_list cmds) stdout stderr timeout
                        (dicts s env) check shell text s))))"

section \<open>The module level\<close>

text \<open>
  Importing the module executes the class body and \<open>_default_shell = Shell()\<close>, in a
  process whose environment is \<open>environ\<close>. \<open>run\<close> is the bound method
  \<open>_default_shell.run\<close>, with the defaults of its keyword arguments left to the caller.
\<close>

definition module_init :: "env \<Rightarrow> state" where
  "module_init environ =
     snd (Shell_init english None
       \<lparr>shells = (\<lambda>_. english), n_shells = 0,
        KEYS = [''LOCALE_KEY'' \<mapsto> ''LC_ALL''],
        dicts = (\<lambda>_. Map.empty)(os_environ := environ), n_dicts = 1,
        spawned = []\<rparr>)"

definition run ::
  "(child_spec \<Rightarrow> child) \<Rightarrow> string \<Rightarrow> real \<Rightarrow> target \<Rightarrow> target \<Rightarrow> nat option
    \<Rightarrow> bool \<Rightarrow> bool \<Rightarrow> bool \<Rightarrow> state \<Rightarrow> (error + CompletedProcess) \<times> state" where
  "run = Shell_run default_shell"

definition set_locale :: "string \<Rightarrow> state \<Rightarrow> (error + unit) \<times> state" where
  "set_locale name s =
     (case Locales_getitem name of
        Inl e \<Rightarrow> (Inl e, s)
      | Inr lc \<Rightarrow> (Inr (), s\<lparr>shells := (shells s)(default_shell := lc)\<rparr>))"

section \<open>Reachable states\<close>

text \<open>
  The states a program can be in after importing the module: it calls \<open>set_locale\<close>,
  constructs instances of \<open>Shell\<close>, calls \<open>run\<close> on an instance with a dictionary of
  its own or with none, and creates and changes dictionaries (\<open>os.environ\<close> among them).
\<close>

inductive reachable :: "state \<Rightarrow> bool" where
  init: "reachable (module_init environ)"
| construct: "reachable s \<Longrightarrow> reachable (snd (Shell_init lc keys s))"
| set_locale: "reachable s \<Longrightarrow> reachable (snd (set_locale name s))"
| run_env: "reachable s \<Longrightarrow> self < n_shells s \<Longrightarrow> d < n_dicts s \<Longrightarrow>
    reachable (snd (Shell_run self os command timeout stdout stderr (Some d) check shell tx s))"
| run_no_env: "reachable s \<Longrightarrow> self < n_shells s \<Longrightarrow>
    reachable (snd (Shell_run self os command timeout stdout stderr None check shell tx s))"
| new_dict: "reachable s \<Longrightarrow> reachable (snd (new_dict e s))"
| dict_write: "reachable s \<Longrightarrow> d < n_dicts s \<Longrightarrow>
    reachable (s\<lparr>dicts := (dicts s)(d := e)\<rparr>)"

text \<open>
  A child that exits at once with the given status and empty output, and one that first
  writes the byte \<open>0xFF\<close>, which is text in no UTF-8 locale, to its standard output.
\<close>

definition os_exit :: "int \<Rightarrow> child_spec \<Rightarrow> child" where
  "os_exit retcode spec =
     Exited retcode (Some (Captured [] (Some []))) (Some (Captured [] (Some [])))"


text \<open>
  The state of a caller that has imported the module in a process with the environment
  \<open>environ\<close> and holds one dictionary of its own, object \<open>1\<close>, with the entries \<open>e\<close>.
\<close>

definition caller_state :: "env \<Rightarrow> env \<Rightarrow> state" where
  "caller_state environ e = snd (new_dict e (module_init environ))"

section \<open>Properties of the tokenizer\<close>




section \<open>What \<open>run\<close> does to the state\<close>

lemma subprocess_run_state:
  "snd (subprocess_run os args stdout stderr timeout env check shell tx s) =
     s\<lparr>spawned := spawned s @
       [\<lparr>argv = popen_argv args shell, c_env = env, c_stdout = stdout,
         c_stderr = stderr, c_timeout = timeout, c_text = tx\<rparr>]\<rparr>"
  by (simp add: subprocess_run_def Let_def split: child.splits sum.splits prod.splits)

lemma locale_map_total: "\<exists>v. map_of locale_map l = Some v"
  by (cases l) (simp_all add: locale_map_def)

lemma Shell_run_env:
  assumes "KEYS s ''LOCALE_KEY'' = Some k" "map_of locale_map (shells s self) = Some v"
  shows "Shell_run self os command timeout stdout stderr (Some d) check shell tx s =
     (let s1 = (if k \<notin> dom (dicts s d) then dict_update d [k \<mapsto> v] s else s)
      in case shlex_split command of
           Inl e \<Rightarrow> (Inl e, s1)
         | Inr cmds \<Rightarrow> subprocess_run os (Args_list cmds) stdout stderr timeout
                        (dicts s1 d) check shell tx s1)"
  using assms by (simp add: Shell_run_def Shell_get_locale_env_def Let_def)

lemma Shell_run_None:
  "Shell_run self os command timeout stdout stderr None check shell tx s =
     Shell_run self os command timeout stdout stderr (Some (n_dicts s)) check shell tx
       (snd (environ_copy s))"
  by (simp add: Shell_run_def environ_copy_def new_dict_def)

lemma Shell_run_frame:
  "KEYS (snd (Shell_run self os command timeout stdout stderr env check shell tx s)) = KEYS s
   \<and> shells (snd (Shell_run self os command timeout stdout stderr env check shell tx s))
       = shells s
   \<and> n_shells (snd (Shell_run self os command timeout stdout stderr env check shell tx s))
       = n_shells s
   \<and> n_dicts s
       \<le> n_dicts (snd (Shell_run self os command timeout stdout stderr env check shell tx s))"
  by (cases env)
     (auto simp: Shell_run_def environ_copy_def new_dict_def dict_update_def
            subprocess_run_state split: option.splits sum.splits)

text \<open>
  In every reachable state \<open>Shell.KEYS\<close> has the key \<open>"LOCALE_KEY"\<close> (\<open>update\<close> never
  removes a key), and \<open>os.environ\<close> and \<open>_default_shell\<close> exist.
\<close>

lemma reachable_inv:
  "reachable s \<Longrightarrow> KEYS s ''LOCALE_KEY'' \<noteq> None \<and> 0 < n_dicts s \<and> 0 < n_shells s"
proof (induction rule: reachable.induct)
  case (init environ)
  show ?case by (simp add: module_init_def Shell_init_def)
next
  case (construct s lc keys)
  then show ?case
    by (cases keys) (auto simp: Shell_init_def Let_def map_add_def split: option.splits)
next
  case (set_locale s name)
  then show ?case by (simp add: set_locale_def split: sum.splits)
next
  case (run_env s self d os command timeout stdout stderr check shell tx)
  with Shell_run_frame [of self os command timeout stdout stderr "Some d" check shell tx s]
  show ?case by simp
next
  case (run_no_env s self os command timeout stdout stderr check shell tx)
  with Shell_run_frame [of self os command timeout stdout stderr None check shell tx s]
  show ?case by simp
next
  case (new_dict s e)
  then show ?case by (simp add: new_dict_def)
next
  case (dict_write s d e)
  then show ?case by simp
qed

lemma reachable_KEYS: "reachable s \<Longrightarrow> \<exists>k. KEYS s ''LOCALE_KEY'' = Some k"
  using reachable_inv by auto

lemma state_update_order:
  "s\<lparr>n_dicts := n, dicts := d\<rparr> = s\<lparr>dicts := d, n_dicts := n\<rparr>"
  by (cases s) simp

text \<open>\<open>run\<close> without \<open>env\<close>, where neither subscription raises.\<close>

lemma Shell_run_no_env:
  assumes k: "KEYS s ''LOCALE_KEY'' = Some k"
    and v: "map_of locale_map (shells s self) = Some v"
    and n: "0 < n_dicts s"
  shows "Shell_run self os command timeout stdout stderr None check shell tx s =
     (let E = (if k \<in> dom (dicts s os_environ) then dicts s os_environ
               else (dicts s os_environ)(k \<mapsto> v));
          s1 = s\<lparr>dicts := (dicts s)(n_dicts s := E), n_dicts := Suc (n_dicts s)\<rparr>
      in case shlex_split command of
           Inl e \<Rightarrow> (Inl e, s1)
         | Inr cmds \<Rightarrow> subprocess_run os (Args_list cmds) stdout stderr timeout E
                        check shell tx s1)"
proof -
  let ?s1 = "snd (environ_copy s)"
  have k1: "KEYS ?s1 ''LOCALE_KEY'' = Some k"
    and v1: "map_of locale_map (shells ?s1 self) = Some v"
    using k v by (simp_all add: environ_copy_def new_dict_def)
  have s1: "?s1 = s\<lparr>dicts := (dicts s)(n_dicts s := dicts s os_environ),
                      n_dicts := Suc (n_dicts s)\<rparr>"
    by (simp add: environ_copy_def new_dict_def)
  show ?thesis
    unfolding Shell_run_None Shell_run_env [OF k1 v1]
    by (cases "shlex_split command")
       (simp_all add: dict_update_def Let_def s1 state_update_order)
qed



text \<open>Without text mode nothing is decoded: \<open>communicate\<close> returns the bytes.\<close>

lemma communicate_bytes:
  "communicate False out err = Inr (map_option raw out, map_option raw err)"
  by (simp add: communicate_def read_stream_def split: option.splits)

lemma set_locale_member:
  assumes "(name, lc) \<in> set Locales_members"
  shows "set_locale name s = (Inr (), s\<lparr>shells := (shells s)(default_shell := lc)\<rparr>)"
proof -
  from assms have "map_of Locales_members name = Some lc"
    by (auto simp: Locales_members_def)
  then show ?thesis by (simp add: set_locale_def Locales_getitem_def)
qed

text \<open>The two example states, field by field.\<close>

lemma module_init_simps:
  "KEYS (module_init environ) = [''LOCALE_KEY'' \<mapsto> ''LC_ALL'']"
  "shells (module_init environ) = (\<lambda>_. english)"
  "n_shells (module_init environ) = 1"
  "dicts (module_init environ) = (\<lambda>_. Map.empty)(os_environ := environ)"
  "n_dicts (module_init environ) = 1"
  "spawned (module_init environ) = []"
  by (simp_all add: module_init_def Shell_init_def fun_eq_iff)

lemma caller_state_simps:
  "KEYS (caller_state environ e) = [''LOCALE_KEY'' \<mapsto> ''LC_ALL'']"
  "shells (caller_state environ e) = (\<lambda>_. english)"
  "dicts (caller_state environ e) = ((\<lambda>_. Map.empty)(0 := environ))(Suc 0 := e)"
  "n_dicts (caller_state environ e) = 2"
  "n_shells (caller_state environ e) = 1"
  "spawned (caller_state environ e) = []"
  by (simp_all add: caller_state_def new_dict_def module_init_def Shell_init_def os_environ_def
        fun_eq_iff)

text \<open>
  What the constructor changes: without \<open>keys\<close> nothing of the instances that exist;
  with \<open>keys\<close> the one dictionary \<open>Shell.KEYS\<close>.
\<close>

lemma Shell_init_no_keys:
  "KEYS (snd (Shell_init lc None s)) = KEYS s \<and>
   (\<forall>i < n_shells s. shells (snd (Shell_init lc None s)) i = shells s i)"
  by (simp add: Shell_init_def Let_def)

lemma Shell_init_keys:
  "KEYS (snd (Shell_init lc (Some ks) s)) = KEYS s ++ ks \<and>
   (\<forall>i < n_shells s. shells (snd (Shell_init lc (Some ks) s)) i = shells s i)"
  by (simp add: Shell_init_def Let_def)

section \<open>The locale table\<close>

text \<open>
  C7. The table of \<open>_get_locale_env\<close> has exactly one entry for every member of
  \<open>Locales\<close>, and in every reachable state \<open>_get_locale_env\<close> of any instance returns
  the one-entry dictionary that maps the configured variable name to the table's string
  for the instance's locale: neither subscription raises \<open>KeyError\<close>.
\<close>

theorem locale_table_total:
  assumes "reachable s"
  shows "(\<forall>l. length (filter (\<lambda>entry. fst entry = l) locale_map) = 1) \<and>
         (\<exists>k v. KEYS s ''LOCALE_KEY'' = Some k \<and> map_of locale_map (shells s self) = Some v \<and>
                Shell_get_locale_env self s = Inr [k \<mapsto> v])"
proof -
  have "length (filter (\<lambda>entry. fst entry = l) locale_map) = 1" for l
    by (cases l) (simp_all add: locale_map_def)
  moreover from reachable_KEYS [OF assms] obtain k where "KEYS s ''LOCALE_KEY'' = Some k" ..
  moreover obtain v where "map_of locale_map (shells s self) = Some v"
    using locale_map_total by blast
  ultimately show ?thesis by (simp add: Shell_get_locale_env_def)
qed

theorem locale_table_total_witness:
  "reachable (module_init Map.empty) \<and>
   (\<forall>l. length (filter (\<lambda>entry. fst entry = l) locale_map) = 1) \<and>
   Shell_get_locale_env default_shell (module_init Map.empty) = Inr [''LC_ALL'' \<mapsto> ''en_US'']"
proof -
  have r: "reachable (module_init Map.empty)" by (rule reachable.init)
  from locale_table_total [OF r, of default_shell] r show ?thesis
    by (simp add: module_init_def Shell_init_def default_shell_def locale_map_def)
qed

section \<open>\<open>set_locale\<close>\<close>

text \<open>
  C5. For a name that is not the name of a member of \<open>Locales\<close>, \<open>set_locale\<close> raises
  \<open>KeyError\<close>, a \<open>LookupError\<close>, and leaves the whole state as it was, the locale of
  \<open>_default_shell\<close> in particular; a \<open>run\<close> after it does what it would have done
  before it.
\<close>

theorem set_locale_unknown:
  assumes "name \<notin> fst ` set Locales_members"
  shows "set_locale name s = (Inl KeyError, s) \<and> is_LookupError KeyError \<and>
         shells (snd (set_locale name s)) default_shell = shells s default_shell \<and>
         run os command timeout stdout stderr env check shell tx (snd (set_locale name s)) =
           run os command timeout stdout stderr env check shell tx s"
proof -
  from assms have "map_of Locales_members name = None"
    by (simp add: map_of_eq_None_iff)
  then have "set_locale name s = (Inl KeyError, s)"
    by (simp add: set_locale_def Locales_getitem_def)
  then show ?thesis by simp
qed

theorem set_locale_unknown_witness:
  "''klingon'' \<notin> fst ` set Locales_members \<and>
   set_locale ''klingon'' (module_init Map.empty) = (Inl KeyError, module_init Map.empty)"
proof -
  have h: "''klingon'' \<notin> fst ` set Locales_members" by (simp add: Locales_members_def)
  from set_locale_unknown [OF h, of "module_init Map.empty"] h show ?thesis by simp
qed

text \<open>
  C2, as the source has it. For the name of a member of \<open>Locales\<close>, in a reachable state
  and for a command that tokenizes, \<open>set_locale(name)\<close> succeeds and the \<open>run\<close> after
  it, without \<open>env\<close>, asks for one child. In the child's environment the configured
  variable has the value it has in the process environment when that defines it, and
  otherwise the table's string for the member: \<open>en_US\<close> for \<open>english\<close>, \<open>it_IT\<close> for
  \<open>italian\<close>.
\<close>

theorem set_locale_then_run:
  assumes "(name, lc) \<in> set Locales_members" and "reachable s"
    and "shlex_split command = Inr cmds"
  shows "\<exists>k v q. fst (set_locale name s) = Inr () \<and>
           KEYS s ''LOCALE_KEY'' = Some k \<and> map_of locale_map lc = Some v \<and>
           v = (if name = ''english'' then ''en_US'' else ''it_IT'') \<and>
           spawned (snd (run os command timeout stdout stderr None check shell tx
                           (snd (set_locale name s)))) = spawned s @ [q] \<and>
           c_env q k = (case dicts s os_environ k of None \<Rightarrow> Some v | Some w \<Rightarrow> Some w)"
proof -
  let ?s = "s\<lparr>shells := (shells s)(default_shell := lc)\<rparr>"
  from reachable_KEYS [OF assms(2)] obtain k where k: "KEYS s ''LOCALE_KEY'' = Some k" ..
  from assms(1) have v: "map_of locale_map lc
      = Some (if name = ''english'' then ''en_US'' else ''it_IT'')"
    by (auto simp: Locales_members_def locale_map_def)
  from reachable_inv [OF assms(2)] have n: "0 < n_dicts ?s" by simp
  have k': "KEYS ?s ''LOCALE_KEY'' = Some k" using k by simp
  have v': "map_of locale_map (shells ?s default_shell)
      = Some (if name = ''english'' then ''en_US'' else ''it_IT'')"
    using v by simp
  show ?thesis
    using k v assms(3)
    by (cases "dicts s os_environ k")
       (auto simp: set_locale_member [OF assms(1)] run_def Shell_run_no_env [OF k' v' n]
          subprocess_run_state Let_def)
qed

theorem set_locale_then_run_witness:
  "(''italian'', italian) \<in> set Locales_members \<and>
   reachable (module_init Map.empty) \<and>
   shlex_split ''true'' = Inr [''true''] \<and>
   map (\<lambda>q. c_env q ''LC_ALL'') (spawned (snd (run (os_exit 0) ''true'' 60 PIPE PIPE None
      False True True (snd (set_locale ''italian'' (module_init Map.empty))))))
     = [Some ''it_IT'']"
proof -
  have m: "(''italian'', italian) \<in> set Locales_members" by (simp add: Locales_members_def)
  have r: "reachable (module_init Map.empty)" by (rule reachable.init)
  have t: "shlex_split ''true'' = Inr [''true'']" by code_simp
  from set_locale_then_run [OF m r t, of "os_exit 0" 60 PIPE PIPE False True True]
    m r t show ?thesis by (auto simp: module_init_simps)
qed

text \<open>
  C2 as it is stated fails where the process environment defines the variable: with
  \<open>LC_ALL=C\<close> in the process environment, \<open>set_locale("italian")\<close> succeeds and the
  child of the \<open>run\<close> after it has \<open>LC_ALL=C\<close>, not \<open>it_IT\<close>.
\<close>

theorem set_locale_then_run_counterexample:
  "fst (set_locale ''italian'' (module_init [''LC_ALL'' \<mapsto> ''C''])) = Inr () \<and>
   map_of locale_map italian = Some ''it_IT'' \<and>
   map (\<lambda>q. c_env q ''LC_ALL'') (spawned (snd (run (os_exit 0) ''true'' 60 PIPE PIPE None
      False True True (snd (set_locale ''italian'' (module_init [''LC_ALL'' \<mapsto> ''C'']))))))
     = [Some ''C''] \<and>
   c_env (last (spawned (snd (run (os_exit 0) ''true'' 60 PIPE PIPE None
      False True True (snd (set_locale ''italian'' (module_init [''LC_ALL'' \<mapsto> ''C''])))))))
     ''LC_ALL'' \<noteq> Some ''it_IT''"
proof -
  have m: "(''italian'', italian) \<in> set Locales_members" by (simp add: Locales_members_def)
  have t: "shlex_split ''true'' = Inr [''true'']" by code_simp
  let ?s = "(module_init [''LC_ALL'' \<mapsto> ''C''])\<lparr>shells :=
              (shells (module_init [''LC_ALL'' \<mapsto> ''C'']))(default_shell := italian)\<rparr>"
  have k: "KEYS ?s ''LOCALE_KEY'' = Some ''LC_ALL''"
    by (simp add: module_init_simps)
  have v: "map_of locale_map (shells ?s default_shell) = Some ''it_IT''"
    by (simp add: locale_map_def)
  have n: "0 < n_dicts ?s" by (simp add: module_init_simps)
  show ?thesis
    by (simp add: set_locale_member [OF m] run_def Shell_run_no_env [OF k v n] t
          subprocess_run_state Let_def module_init_simps(4,6) locale_map_def)
qed

section \<open>The environment of the child\<close>

text \<open>
  C3. In a reachable state, \<open>run\<close> without \<open>env\<close> makes one new dictionary object: the
  entries of \<open>os.environ\<close>, and, when the variable named by \<open>KEYS["LOCALE_KEY"]\<close> is not
  among them, that variable with the table's string for the instance's locale; nothing
  else is added or changed. \<open>os.environ\<close> itself and every other dictionary stay as
  they were. When the command tokenizes, the one child asked for gets exactly this
  environment; when it does not, no child is asked for.
\<close>

theorem run_default_env:
  assumes "reachable s"
  shows "\<exists>k v E. KEYS s ''LOCALE_KEY'' = Some k \<and>
           map_of locale_map (shells s self) = Some v \<and>
           E = (if k \<in> dom (dicts s os_environ) then dicts s os_environ
                else (dicts s os_environ)(k \<mapsto> v)) \<and>
           dicts (snd (Shell_run self os command timeout stdout stderr None check shell tx s))
             = (dicts s)(n_dicts s := E) \<and>
           dicts (snd (Shell_run self os command timeout stdout stderr None check shell tx s))
             os_environ = dicts s os_environ \<and>
           spawned (snd (Shell_run self os command timeout stdout stderr None check shell tx s))
             = (case shlex_split command of
                  Inl e \<Rightarrow> spawned s
                | Inr cmds \<Rightarrow>
                    spawned s @ [\<lparr>argv = popen_argv (Args_list cmds) shell, c_env = E,
                      c_stdout = stdout, c_stderr = stderr, c_timeout = timeout,
                      c_text = tx\<rparr>])"
proof -
  from reachable_KEYS [OF assms] obtain k where k: "KEYS s ''LOCALE_KEY'' = Some k" ..
  obtain v where v: "map_of locale_map (shells s self) = Some v"
    using locale_map_total by blast
  from reachable_inv [OF assms] have n: "0 < n_dicts s" by simp
  then have n': "n_dicts s \<noteq> os_environ" by (simp add: os_environ_def)
  show ?thesis
    using k v n'
    by (cases "shlex_split command")
       (simp_all add: Shell_run_no_env [OF k v n] subprocess_run_state Let_def)
qed

theorem run_default_env_witness:
  "reachable (module_init [''HOME'' \<mapsto> ''/root'']) \<and>
   shlex_split ''true'' = Inr [''true''] \<and>
   map c_env (spawned (snd (Shell_run default_shell (os_exit 0) ''true'' 60 PIPE PIPE None
      False True True (module_init [''HOME'' \<mapsto> ''/root'']))))
     = [[''HOME'' \<mapsto> ''/root'', ''LC_ALL'' \<mapsto> ''en_US'']] \<and>
   dicts (snd (Shell_run default_shell (os_exit 0) ''true'' 60 PIPE PIPE None
      False True True (module_init [''HOME'' \<mapsto> ''/root'']))) os_environ
     = [''HOME'' \<mapsto> ''/root'']"
proof -
  have r: "reachable (module_init [''HOME'' \<mapsto> ''/root''])" by (rule reachable.init)
  have t: "shlex_split ''true'' = Inr [''true'']" by code_simp
  from run_default_env [OF r, of default_shell "os_exit 0" "''true''" 60 PIPE PIPE False True
      True]
    r t show ?thesis by (auto simp: module_init_simps locale_map_def)
qed

text \<open>
  C4. When the dictionary the caller passes as \<open>env\<close> defines the variable named by
  \<open>KEYS["LOCALE_KEY"]\<close> and the command tokenizes, the one child asked for gets the
  caller's dictionary as it is, so the variable has the caller's value, and no dictionary
  is changed.
\<close>

theorem run_keeps_caller_locale:
  assumes "KEYS s ''LOCALE_KEY'' = Some k" and "dicts s d k = Some v"
    and "shlex_split command = Inr cmds"
  shows "spawned (snd (Shell_run self os command timeout stdout stderr (Some d) check shell tx s))
           = spawned s @ [\<lparr>argv = popen_argv (Args_list cmds) shell, c_env = dicts s d,
                            c_stdout = stdout, c_stderr = stderr, c_timeout = timeout,
                            c_text = tx\<rparr>] \<and>
         c_env (last (spawned (snd (Shell_run self os command timeout stdout stderr (Some d)
                  check shell tx s)))) k = Some v \<and>
         dicts (snd (Shell_run self os command timeout stdout stderr (Some d) check shell tx s))
           = dicts s"
proof -
  obtain w where w: "map_of locale_map (shells s self) = Some w"
    using locale_map_total by blast
  from assms(2) have "k \<in> dom (dicts s d)" by auto
  with assms show ?thesis
    by (simp add: Shell_run_env [OF assms(1) w] subprocess_run_state)
qed

theorem run_keeps_caller_locale_witness:
  "KEYS (caller_state Map.empty [''LC_ALL'' \<mapsto> ''C'']) ''LOCALE_KEY'' = Some ''LC_ALL'' \<and>
   dicts (caller_state Map.empty [''LC_ALL'' \<mapsto> ''C'']) 1 ''LC_ALL'' = Some ''C'' \<and>
   shlex_split ''true'' = Inr [''true''] \<and>
   c_env (last (spawned (snd (Shell_run default_shell (os_exit 0) ''true'' 60 PIPE PIPE (Some 1)
      False True True (caller_state Map.empty [''LC_ALL'' \<mapsto> ''C''])))))
     ''LC_ALL'' = Some ''C''"
proof -
  have k: "KEYS (caller_state Map.empty [''LC_ALL'' \<mapsto> ''C'']) ''LOCALE_KEY'' = Some ''LC_ALL''"
    by (simp add: caller_state_simps)
  have d: "dicts (caller_state Map.empty [''LC_ALL'' \<mapsto> ''C'']) 1 ''LC_ALL'' = Some ''C''"
    by (simp add: caller_state_simps)
  have t: "shlex_split ''true'' = Inr [''true'']" by code_simp
  from run_keeps_caller_locale [OF k d t, of default_shell "os_exit 0" 60 PIPE PIPE False True True]
    k d t show ?thesis by simp
qed

text \<open>
  C9. When the dictionary the caller passes as \<open>env\<close> lacks the variable named by
  \<open>KEYS["LOCALE_KEY"]\<close>, \<open>run\<close> adds the variable, with the table's string for the
  instance's locale, to that very dictionary object: after the call, whatever its
  outcome, the caller's dictionary has the entry, every other dictionary is as it was,
  and no new dictionary was made.
\<close>

theorem run_mutates_caller_env:
  assumes "KEYS s ''LOCALE_KEY'' = Some k" and "dicts s d k = None"
  shows "\<exists>v. map_of locale_map (shells s self) = Some v \<and>
           dicts (snd (Shell_run self os command timeout stdout stderr (Some d) check shell tx s))
             = (dicts s)(d := (dicts s d)(k \<mapsto> v)) \<and>
           n_dicts (snd (Shell_run self os command timeout stdout stderr (Some d) check shell tx s))
             = n_dicts s"
proof -
  obtain v where v: "map_of locale_map (shells s self) = Some v"
    using locale_map_total by blast
  from assms(2) have "k \<notin> dom (dicts s d)" by auto
  then have "dicts (snd (Shell_run self os command timeout stdout stderr (Some d) check shell tx s))
             = (dicts s)(d := (dicts s d)(k \<mapsto> v)) \<and>
           n_dicts (snd (Shell_run self os command timeout stdout stderr (Some d) check shell tx s))
             = n_dicts s"
    by (simp add: Shell_run_env [OF assms(1) v] subprocess_run_state dict_update_def
          Let_def split: sum.splits)
  with v show ?thesis by blast
qed

theorem run_mutates_caller_env_witness:
  "KEYS (caller_state Map.empty Map.empty) ''LOCALE_KEY'' = Some ''LC_ALL'' \<and>
   dicts (caller_state Map.empty Map.empty) 1 ''LC_ALL'' = None \<and>
   dicts (snd (Shell_run default_shell (os_exit 0) ''true'' 60 PIPE PIPE (Some 1)
      False True True (caller_state Map.empty Map.empty))) 1 ''LC_ALL'' = Some ''en_US''"
proof -
  have k: "KEYS (caller_state Map.empty Map.empty) ''LOCALE_KEY'' = Some ''LC_ALL''"
    by (simp add: caller_state_simps)
  have d: "dicts (caller_state Map.empty Map.empty) 1 ''LC_ALL'' = None"
    by (simp add: caller_state_simps)
  from run_mutates_caller_env [OF k d, of default_shell "os_exit 0" "''true''" 60 PIPE PIPE
      False True True]
    k d show ?thesis by (auto simp: caller_state_simps locale_map_def)
qed

section \<open>The outcome of \<open>run\<close>\<close>






section \<open>Where the source departs from its description\<close>

text \<open>
  C1. \<open>run("echo hello")\<close>, with \<open>shell\<close> at its default \<open>True\<close>: the command is
  tokenized to \<open>echo\<close> and \<open>hello\<close>, and the tokens, not the string, go to
  \<open>subprocess.run\<close>. The child is \<open>/bin/sh -c echo hello\<close>, whose script is the single
  word \<open>echo\<close>; the string itself would have given \<open>/bin/sh -c "echo hello"\<close>. With
  \<open>shell=False\<close> the child is the tokens, \<open>echo hello\<close>.
\<close>

theorem run_shell_gets_tokens:
  "shlex_split ''echo hello'' = Inr [''echo'', ''hello''] \<and>
   map argv (spawned (snd (run (os_exit 0) ''echo hello'' 60 PIPE PIPE None False True True
      (module_init Map.empty)))) = [[''/bin/sh'', ''-c'', ''echo'', ''hello'']] \<and>
   popen_argv (Args_str ''echo hello'') True = [''/bin/sh'', ''-c'', ''echo hello''] \<and>
   map argv (spawned (snd (run (os_exit 0) ''echo hello'' 60 PIPE PIPE None False False True
      (module_init Map.empty)))) = [[''echo'', ''hello'']]"
proof -
  have t: "shlex_split ''echo hello'' = Inr [''echo'', ''hello'']" by code_simp
  have k: "KEYS (module_init Map.empty) ''LOCALE_KEY'' = Some ''LC_ALL''"
    by (simp add: module_init_simps)
  have v: "map_of locale_map (shells (module_init Map.empty) default_shell) = Some ''en_US''"
    by (simp add: module_init_simps locale_map_def)
  have n: "0 < n_dicts (module_init Map.empty)" by (simp add: module_init_simps)
  show ?thesis
    by (simp add: t run_def Shell_run_no_env [OF k v n] subprocess_run_state Let_def
          module_init_simps popen_argv_def)
qed

text \<open>
  C8. Constructing \<open>Shell(Locales.italian, keys={"LOCALE_KEY": "LANG"})\<close> after the
  import changes \<open>Shell.KEYS\<close>, the dictionary that \<open>_default_shell\<close> reads too: before
  it the module-level \<open>run\<close> gives its child \<open>LC_ALL=en_US\<close>, after it \<open>LANG=en_US\<close>.
\<close>

theorem Shell_init_keys_shared:
  "KEYS (module_init Map.empty) ''LOCALE_KEY'' = Some ''LC_ALL'' \<and>
   KEYS (snd (Shell_init italian (Some [''LOCALE_KEY'' \<mapsto> ''LANG''])
     (module_init Map.empty))) ''LOCALE_KEY'' = Some ''LANG'' \<and>
   map c_env (spawned (snd (run (os_exit 0) ''true'' 60 PIPE PIPE None False True True
      (module_init Map.empty)))) = [[''LC_ALL'' \<mapsto> ''en_US'']] \<and>
   map c_env (spawned (snd (run (os_exit 0) ''true'' 60 PIPE PIPE None False True True
      (snd (Shell_init italian (Some [''LOCALE_KEY'' \<mapsto> ''LANG''])
        (module_init Map.empty)))))) = [[''LANG'' \<mapsto> ''en_US'']]"
proof -
  let ?s = "snd (Shell_init italian (Some [''LOCALE_KEY'' \<mapsto> ''LANG''])
     (module_init Map.empty))"
  have t: "shlex_split ''true'' = Inr [''true'']" by code_simp
  have k0: "KEYS (module_init Map.empty) ''LOCALE_KEY'' = Some ''LC_ALL''"
    by (simp add: module_init_simps)
  have v0: "map_of locale_map (shells (module_init Map.empty) default_shell) = Some ''en_US''"
    by (simp add: module_init_simps locale_map_def)
  have n0: "0 < n_dicts (module_init Map.empty)" by (simp add: module_init_simps)
  have k: "KEYS ?s ''LOCALE_KEY'' = Some ''LANG''"
    by (simp add: Shell_init_def module_init_simps)
  have v: "map_of locale_map (shells ?s default_shell) = Some ''en_US''"
    by (simp add: Shell_init_def module_init_simps locale_map_def default_shell_def)
  have n: "0 < n_dicts ?s" by (simp add: Shell_init_def module_init_simps)
  have d: "dicts ?s os_environ = Map.empty" "spawned ?s = []"
    by (simp_all add: Shell_init_def module_init_simps)
  show ?thesis
    by (simp add: t k0 k run_def Shell_run_no_env [OF k0 v0 n0] Shell_run_no_env [OF k v n]
          subprocess_run_state Let_def module_init_simps d)
qed

end
